theory Spec2Isabelle
  imports Main
begin

section \<open>JavaScript values, errors and completions\<close>

text \<open>
  The theme module is a JavaScript class, \<open>ThemeManager\<close>, working on browser globals:
  \<open>localStorage\<close>, \<open>window.matchMedia\<close>, \<open>document\<close> and \<open>console\<close>. A call either
  returns or throws; a completion is \<open>Inr\<close> of the returned value or \<open>Inl\<close> of the
  thrown error, so that each \<open>try\<close>/\<open>catch\<close> of the source is a case distinction.
\<close>

datatype js_error = SecurityError | QuotaExceededError

type_synonym 'a completion = "js_error + 'a"

text \<open>
  The JavaScript values the module handles: \<open>JObject n\<close> stands for a function or an
  object, named \<open>n\<close>, that is neither a primitive nor a string.
\<close>

datatype js_value = JUndefined | JNull | JBoolean bool | JString string | JObject string

text \<open>ToBoolean, as the operators \<open>||\<close> and \<open>!\<close> apply it.\<close>

fun truthy :: "js_value \<Rightarrow> bool" where
  "truthy JUndefined = False"
| "truthy JNull = False"
| "truthy (JBoolean b) = b"
| "truthy (JString s) = (s \<noteq> [])"
| "truthy (JObject n) = True"

definition js_or :: "js_value \<Rightarrow> js_value \<Rightarrow> js_value" where
  "js_or a b = (if truthy a then a else b)"

text \<open>
  \<open>localStorage.getItem\<close> returns a string or \<open>null\<close>: a \<open>string option\<close>, of which
  \<open>null\<close> and the empty string are the falsy values.
\<close>

fun truthy_item :: "string option \<Rightarrow> bool" where
  "truthy_item None = False"
| "truthy_item (Some s) = (s \<noteq> [])"

text \<open>
  The properties every object literal inherits from \<open>Object.prototype\<close>. Reading one of
  them by name from a literal that does not define it gives the inherited function or
  object, which is truthy.
\<close>

definition Object_prototype_properties :: "string list" where
  "Object_prototype_properties =
     [''constructor'', ''hasOwnProperty'', ''isPrototypeOf'', ''propertyIsEnumerable'',
      ''toLocaleString'', ''toString'', ''valueOf'', ''__proto__'',
      ''__defineGetter__'', ''__defineSetter__'', ''__lookupGetter__'', ''__lookupSetter__'']"

text \<open>The property read \<open>obj[key]\<close> on an object literal with the given own properties.\<close>

definition get_property :: "(string \<times> string) list \<Rightarrow> string \<Rightarrow> js_value" where
  "get_property own key =
     (case map_of own key of
        Some v \<Rightarrow> JString v
      | None \<Rightarrow> if key \<in> set Object_prototype_properties then JObject key else JUndefined)"

section \<open>The browser and the manager\<close>

text \<open>The toggle control: its \<open>aria-label\<close> attribute and its \<open>style.transform\<close>.\<close>

record button =
  aria_label :: "string option"
  transform :: "string option"

text \<open>
  What the module reads and writes outside itself.
  \<^item> \<open>storage_denied\<close>: access to \<open>localStorage\<close> throws (storage disabled);
    \<open>storage_full\<close>: \<open>setItem\<close> throws; \<open>storage_items\<close>: the stored key-value pairs.
  \<^item> \<open>matchMedia\<close>: \<open>None\<close> when \<open>window.matchMedia\<close> is not there, otherwise whether
    the query \<open>(prefers-color-scheme: dark)\<close> matches.
  \<^item> \<open>data_theme\<close>: the attribute \<open>data-theme\<close> of the document element.
  \<^item> \<open>meta_theme_color\<close>: \<open>None\<close> when the document has no
    \<open>meta[name="theme-color"]\<close>, otherwise the value last assigned to its \<open>content\<close>
    (the document keeps that value's string, which for \<open>JString s\<close> is \<open>s\<close>).
  \<^item> \<open>theme_toggle\<close>: the element with id \<open>theme-toggle\<close>, if there is one.
  \<^item> \<open>toggle_listeners\<close>, \<open>media_listener\<close>: whether the manager's click and keydown
    listeners, and its media-query change listener, are registered.
  \<^item> \<open>timers\<close>: the pending timeouts of the press animation.
  \<^item> \<open>events\<close>: the custom events dispatched on the document, oldest first, each with
    its name and its \<open>detail.theme\<close>.
  \<^item> \<open>console\<close>: the warnings logged, oldest first.
\<close>

record browser =
  storage_denied :: bool
  storage_full :: bool
  storage_items :: "string \<Rightarrow> string option"
  matchMedia :: "bool option"
  data_theme :: "string option"
  meta_theme_color :: "js_value option"
  theme_toggle :: "button option"
  toggle_listeners :: bool
  media_listener :: bool
  timers :: nat
  events :: "(string \<times> string) list"
  console :: "(string \<times> js_error) list"

text \<open>
  The fields of a \<open>ThemeManager\<close>: \<open>themeToggle\<close> tells whether
  \<open>document.getElementById("theme-toggle")\<close> found the element.
\<close>

record ThemeManager =
  themeToggle :: bool
  currentTheme :: string

type_synonym state = "ThemeManager \<times> browser"

subsection \<open>Browser operations\<close>

definition localStorage_getItem :: "string \<Rightarrow> browser \<Rightarrow> (string option) completion" where
  "localStorage_getItem key w =
     (if storage_denied w then Inl SecurityError else Inr (storage_items w key))"

definition localStorage_setItem :: "string \<Rightarrow> string \<Rightarrow> browser \<Rightarrow> unit completion \<times> browser" where
  "localStorage_setItem key v w =
     (if storage_denied w then (Inl SecurityError, w)
      else if storage_full w then (Inl QuotaExceededError, w)
      else (Inr (), w\<lparr>storage_items := (storage_items w)(key \<mapsto> v)\<rparr>))"

definition console_warn :: "string \<Rightarrow> js_error \<Rightarrow> browser \<Rightarrow> browser" where
  "console_warn msg error w = w\<lparr>console := console w @ [(msg, error)]\<rparr>"

definition dispatchEvent :: "string \<Rightarrow> string \<Rightarrow> browser \<Rightarrow> browser" where
  "dispatchEvent name theme w = w\<lparr>events := events w @ [(name, theme)]\<rparr>"

text \<open>Sequencing: a thrown error skips the rest.\<close>

definition and_then ::
  "'a completion \<times> 's \<Rightarrow> ('a \<Rightarrow> 's \<Rightarrow> 'b completion \<times> 's) \<Rightarrow> 'b completion \<times> 's" where
  "and_then r f = (case r of (Inl e, s) \<Rightarrow> (Inl e, s) | (Inr v, s) \<Rightarrow> f v s)"

section \<open>The methods of ThemeManager\<close>

definition getSystemTheme :: "browser \<Rightarrow> string" where
  "getSystemTheme w = (if matchMedia w = Some True then ''dark'' else ''light'')"

definition getStoredTheme :: "browser \<Rightarrow> (string option) completion \<times> browser" where
  "getStoredTheme w =
     (case localStorage_getItem ''theme'' w of
        Inr v \<Rightarrow> (Inr v, w)
      | Inl error \<Rightarrow> (Inr None, console_warn ''localStorage not available:'' error w))"

definition storeTheme :: "string \<Rightarrow> browser \<Rightarrow> unit completion \<times> browser" where
  "storeTheme theme w =
     (case localStorage_setItem ''theme'' theme w of
        (Inr u, w') \<Rightarrow> (Inr (), w')
      | (Inl error, w') \<Rightarrow> (Inr (), console_warn ''Could not store theme preference:'' error w'))"

definition colors :: "(string \<times> string) list" where
  "colors = [(''light'', ''#ffffff''), (''dark'', ''#0f172a'')]"

definition updateMetaThemeColor :: "string \<Rightarrow> browser \<Rightarrow> browser" where
  "updateMetaThemeColor theme w =
     (let w1 = (if meta_theme_color w = None then w\<lparr>meta_theme_color := Some (JString [])\<rparr> else w)
      in w1\<lparr>meta_theme_color :=
              Some (js_or (get_property colors theme) (get_property colors ''light''))\<rparr>)"

definition updateToggleLabel :: "state \<Rightarrow> state" where
  "updateToggleLabel s =
     (case s of (this, w) \<Rightarrow>
        if themeToggle this
        then (let label = (if currentTheme this = ''dark''
                           then ''Ativar modo claro'' else ''Ativar modo escuro'')
              in (this, w\<lparr>theme_toggle :=
                             map_option (\<lambda>b. b\<lparr>aria_label := Some label\<rparr>) (theme_toggle w)\<rparr>))
        else (this, w))"

definition applyTheme :: "string \<Rightarrow> state \<Rightarrow> unit completion \<times> state" where
  "applyTheme theme s =
     (case s of (this, w) \<Rightarrow>
        (let this1 = this\<lparr>currentTheme := theme\<rparr>;
             w1 = w\<lparr>data_theme := Some theme\<rparr>;
             w2 = updateMetaThemeColor theme w1
         in case storeTheme theme w2 of
              (Inl e, w3) \<Rightarrow> (Inl e, (this1, w3))
            | (Inr u, w3) \<Rightarrow>
                (case updateToggleLabel (this1, w3) of (this2, w4) \<Rightarrow>
                   (Inr (), (this2, dispatchEvent ''themeChanged'' theme w4)))))"

definition toggleTheme :: "state \<Rightarrow> unit completion \<times> state" where
  "toggleTheme s =
     (let newTheme = (if currentTheme (fst s) = ''dark'' then ''light'' else ''dark'')
      in and_then (applyTheme newTheme s) (\<lambda>u s1.
           case s1 of (this, w) \<Rightarrow>
             if themeToggle this
             then (Inr (), (this, w\<lparr>theme_toggle :=
                                      map_option (\<lambda>b. b\<lparr>transform := Some ''scale(0.95)''\<rparr>)
                                        (theme_toggle w),
                                    timers := Suc (timers w)\<rparr>))
             else (Inr (), (this, w))))"

definition getCurrentTheme :: "state \<Rightarrow> string" where
  "getCurrentTheme s = currentTheme (fst s)"

definition setTheme :: "js_value \<Rightarrow> state \<Rightarrow> unit completion \<times> state" where
  "setTheme theme s =
     (case theme of
        JString t \<Rightarrow> if t = ''dark'' \<or> t = ''light'' then applyTheme t s else (Inr (), s)
      | _ \<Rightarrow> (Inr (), s))"

text \<open>
  The listener \<open>init\<close> registers on the media query: \<open>e_matches\<close> is the event's
  \<open>matches\<close>, the new answer of the system to "is dark preferred".
\<close>

definition on_system_theme_change :: "bool \<Rightarrow> state \<Rightarrow> unit completion \<times> state" where
  "on_system_theme_change e_matches s =
     (case s of (this, w) \<Rightarrow>
        (case getStoredTheme w of
           (Inl e, w1) \<Rightarrow> (Inl e, (this, w1))
         | (Inr stored, w1) \<Rightarrow>
             if \<not> truthy_item stored
             then applyTheme (if e_matches then ''dark'' else ''light'') (this, w1)
             else (Inr (), (this, w1))))"

text \<open>The keydown listener of the toggle control.\<close>

definition on_keydown :: "string \<Rightarrow> state \<Rightarrow> unit completion \<times> state" where
  "on_keydown key s =
     (if key = ''Enter'' \<or> key = '' '' then toggleTheme s else (Inr (), s))"

text \<open>The callback of the timeout \<open>toggleTheme\<close> sets.\<close>

definition on_timeout :: "state \<Rightarrow> state" where
  "on_timeout s =
     (case s of (this, w) \<Rightarrow>
        (this, w\<lparr>theme_toggle := map_option (\<lambda>b. b\<lparr>transform := Some ''scale(1)''\<rparr>)
                                    (theme_toggle w),
                 timers := timers w - 1\<rparr>))"

definition init :: "state \<Rightarrow> unit completion \<times> state" where
  "init s =
     and_then (applyTheme (currentTheme (fst s)) s) (\<lambda>u s1.
       case s1 of (this, w) \<Rightarrow>
         (let w1 = (if themeToggle this then w\<lparr>toggle_listeners := True\<rparr> else w);
              w2 = (if matchMedia w1 \<noteq> None then w1\<lparr>media_listener := True\<rparr> else w1)
          in (Inr (), updateToggleLabel (this, w2))))"

text \<open>
  \<open>new ThemeManager()\<close> in a browser \<open>w\<close>. The stored theme is used when it is truthy,
  the system theme otherwise. Were \<open>getStoredTheme\<close> to throw, the constructor would throw
  with it, before \<open>currentTheme\<close> is assigned.
\<close>

definition constructor :: "browser \<Rightarrow> unit completion \<times> state" where
  "constructor w =
     (case getStoredTheme w of
        (Inl e, w1) \<Rightarrow>
          (Inl e, (\<lparr>themeToggle = (theme_toggle w \<noteq> None), currentTheme = []\<rparr>, w1))
      | (Inr stored, w1) \<Rightarrow>
          init (\<lparr>themeToggle = (theme_toggle w \<noteq> None),
                 currentTheme = (case stored of
                                   Some t \<Rightarrow> if t \<noteq> [] then t else getSystemTheme w1
                                 | None \<Rightarrow> getSystemTheme w1)\<rparr>, w1))"

section \<open>Events\<close>

text \<open>
  What can happen to a constructed manager: a click or a key press on the toggle
  control, a change of the system's colour scheme, the timeout of the press animation,
  and calls of the public methods \<open>setTheme\<close> and \<open>toggleTheme\<close>. A listener runs only if
  \<open>init\<close> registered it.
\<close>

datatype event =
    Click
  | Keydown string
  | SystemThemeChange bool
  | Timeout
  | Call_setTheme js_value
  | Call_toggleTheme

fun dispatch :: "event \<Rightarrow> state \<Rightarrow> unit completion \<times> state" where
  "dispatch Click s = (if toggle_listeners (snd s) then toggleTheme s else (Inr (), s))"
| "dispatch (Keydown key) s = (if toggle_listeners (snd s) then on_keydown key s else (Inr (), s))"
| "dispatch (SystemThemeChange e_matches) s =
     (if media_listener (snd s) then on_system_theme_change e_matches s else (Inr (), s))"
| "dispatch Timeout s = (if 0 < timers (snd s) then (Inr (), on_timeout s) else (Inr (), s))"
| "dispatch (Call_setTheme theme) s = setTheme theme s"
| "dispatch Call_toggleTheme s = toggleTheme s"

text \<open>Events are handled one after the other, each to completion.\<close>

fun run :: "event list \<Rightarrow> state \<Rightarrow> state" where
  "run [] s = s"
| "run (e # es) s = run es (snd (dispatch e s))"

text \<open>Storage works: reading and writing \<open>localStorage\<close> both succeed.\<close>

definition storage_available :: "browser \<Rightarrow> bool" where
  "storage_available w = (\<not> storage_denied w \<and> \<not> storage_full w)"

text \<open>A browser to evaluate the methods in: nothing stored, no toggle control, no meta tag.\<close>

definition blank :: browser where
  "blank = \<lparr>storage_denied = False, storage_full = False, storage_items = (\<lambda>k. None),
            matchMedia = None, data_theme = None, meta_theme_color = None,
            theme_toggle = None, toggle_listeners = False, media_listener = False,
            timers = 0, events = [], console = []\<rparr>"

section \<open>What each method does to the state\<close>

lemma storeTheme_eq:
  "storeTheme theme w =
     (Inr (), if storage_denied w
              then w\<lparr>console := console w @ [(''Could not store theme preference:'', SecurityError)]\<rparr>
              else if storage_full w
              then w\<lparr>console := console w @ [(''Could not store theme preference:'', QuotaExceededError)]\<rparr>
              else w\<lparr>storage_items := (storage_items w)(''theme'' \<mapsto> theme)\<rparr>)"
  by (simp add: storeTheme_def localStorage_setItem_def console_warn_def)

lemma getStoredTheme_eq:
  "getStoredTheme w =
     (if storage_denied w
      then (Inr None, w\<lparr>console := console w @ [(''localStorage not available:'', SecurityError)]\<rparr>)
      else (Inr (storage_items w ''theme''), w))"
  by (simp add: getStoredTheme_def localStorage_getItem_def console_warn_def)

lemma applyTheme_eq:
  "applyTheme theme (this, w) =
     (Inr (),
      (this\<lparr>currentTheme := theme\<rparr>,
       w\<lparr>data_theme := Some theme,
         meta_theme_color := Some (js_or (get_property colors theme) (get_property colors ''light'')),
         storage_items := (if storage_available w then (storage_items w)(''theme'' \<mapsto> theme)
                           else storage_items w),
         console := (if storage_denied w
                     then console w @ [(''Could not store theme preference:'', SecurityError)]
                     else if storage_full w
                     then console w @ [(''Could not store theme preference:'', QuotaExceededError)]
                     else console w),
         theme_toggle := (if themeToggle this
                          then map_option (\<lambda>b. b\<lparr>aria_label :=
                                 Some (if theme = ''dark'' then ''Ativar modo claro''
                                       else ''Ativar modo escuro'')\<rparr>) (theme_toggle w)
                          else theme_toggle w),
         events := events w @ [(''themeChanged'', theme)]\<rparr>))"
  by (simp add: applyTheme_def storeTheme_eq updateMetaThemeColor_def
        updateToggleLabel_def dispatchEvent_def storage_available_def Let_def)

lemma toggleTheme_eq:
  "toggleTheme (this, w) =
     (case applyTheme (if currentTheme this = ''dark'' then ''light'' else ''dark'') (this, w) of
        (r, (this1, w1)) \<Rightarrow>
          (Inr (), (this1, if themeToggle this
                           then w1\<lparr>theme_toggle := map_option (\<lambda>b. b\<lparr>transform := Some ''scale(0.95)''\<rparr>)
                                                       (theme_toggle w1),
                                   timers := Suc (timers w1)\<rparr>
                           else w1)))"
  by (simp add: toggleTheme_def and_then_def applyTheme_eq Let_def)

lemma init_eq:
  "init (this, w) =
     (case applyTheme (currentTheme this) (this, w) of
        (r, (this1, w1)) \<Rightarrow>
          (Inr (), (this1, w1\<lparr>toggle_listeners := (themeToggle this \<or> toggle_listeners w),
                              media_listener := (matchMedia w \<noteq> None \<or> media_listener w)\<rparr>)))"
proof (cases "theme_toggle w")
  case None
  then show ?thesis
    by (auto simp: init_def and_then_def applyTheme_eq Let_def updateToggleLabel_def)
next
  case (Some b)
  then show ?thesis
    by (auto simp: init_def and_then_def applyTheme_eq Let_def updateToggleLabel_def)
qed

text \<open>No method of the manager throws: the two storage accesses are caught.\<close>

lemma applyTheme_returns: "fst (applyTheme theme s) = Inr ()"
  by (cases s) (simp add: applyTheme_eq)

lemma toggleTheme_returns: "fst (toggleTheme s) = Inr ()"
  by (cases s) (simp add: toggleTheme_eq applyTheme_eq)

lemma constructor_returns: "fst (constructor w) = Inr ()"
  by (simp add: constructor_def getStoredTheme_eq init_eq applyTheme_eq split: option.splits)

section \<open>Startup\<close>

text \<open>
  C1. Startup with a stored theme: when \<open>localStorage\<close> can be read and holds \<open>light\<close> or
  \<open>dark\<close> under the key \<open>theme\<close>, the constructor returns with \<open>currentTheme\<close> equal to
  that stored value, whatever the system's colour-scheme query answers (\<open>os\<close> ranges over
  "no matchMedia", "dark does not match" and "dark matches").
\<close>

theorem startup_stored_theme_wins:
  assumes "\<not> storage_denied w"
    and "storage_items w ''theme'' = Some t"
    and "t = ''light'' \<or> t = ''dark''"
  shows "fst (constructor (w\<lparr>matchMedia := os\<rparr>)) = Inr () \<and>
         currentTheme (fst (snd (constructor (w\<lparr>matchMedia := os\<rparr>)))) = t"
  using assms by (auto simp: constructor_def getStoredTheme_eq init_eq applyTheme_eq)

theorem startup_stored_theme_wins_witness:
  "\<not> storage_denied (blank\<lparr>storage_items := [''theme'' \<mapsto> ''light'']\<rparr>) \<and>
   storage_items (blank\<lparr>storage_items := [''theme'' \<mapsto> ''light'']\<rparr>) ''theme'' = Some ''light'' \<and>
   currentTheme (fst (snd (constructor
     (blank\<lparr>storage_items := [''theme'' \<mapsto> ''light''], matchMedia := Some True\<rparr>)))) = ''light''"
  using startup_stored_theme_wins
          [of "blank\<lparr>storage_items := [''theme'' \<mapsto> ''light'']\<rparr>" "''light''" "Some True"]
  by (simp add: blank_def)

text \<open>
  C2. Startup without a stored theme: when nothing is stored under \<open>theme\<close> (or storage
  cannot be read, which \<open>getStoredTheme\<close> reports as nothing stored), the constructor
  returns with \<open>currentTheme\<close> equal to the system theme, which is \<open>dark\<close> if the
  dark-scheme query matches and \<open>light\<close> otherwise; in particular it is \<open>light\<close> when
  \<open>window.matchMedia\<close> is not there.
\<close>

theorem startup_falls_back_to_system:
  assumes "storage_denied w \<or> storage_items w ''theme'' = None"
  shows "fst (constructor w) = Inr () \<and>
         currentTheme (fst (snd (constructor w))) = getSystemTheme w \<and>
         getSystemTheme w = (if matchMedia w = Some True then ''dark'' else ''light'') \<and>
         (matchMedia w = None \<longrightarrow> getSystemTheme w = ''light'')"
  using assms
  by (auto simp: constructor_def getStoredTheme_eq init_eq applyTheme_eq getSystemTheme_def)

theorem startup_falls_back_to_system_witness:
  "storage_items (blank\<lparr>matchMedia := Some True\<rparr>) ''theme'' = None \<and>
   currentTheme (fst (snd (constructor (blank\<lparr>matchMedia := Some True\<rparr>)))) = ''dark'' \<and>
   matchMedia blank = None \<and>
   currentTheme (fst (snd (constructor blank))) = ''light''"
  using startup_falls_back_to_system [of "blank\<lparr>matchMedia := Some True\<rparr>"]
        startup_falls_back_to_system [of blank]
  by (simp add: blank_def)

section \<open>Transitions\<close>

text \<open>
  C3. \<open>toggleTheme\<close> is an involution on the current mode: from either mode, \<open>light\<close> or
  \<open>dark\<close>, two calls of \<open>toggleTheme\<close> leave \<open>currentTheme\<close> as it was.
\<close>

theorem toggleTheme_involution:
  assumes "currentTheme (fst s) = ''light'' \<or> currentTheme (fst s) = ''dark''"
  shows "currentTheme (fst (snd (toggleTheme (snd (toggleTheme s))))) = currentTheme (fst s)"
  using assms by (cases s) (auto simp: toggleTheme_eq applyTheme_eq)

theorem toggleTheme_involution_witness:
  "currentTheme (fst (\<lparr>themeToggle = False, currentTheme = ''dark''\<rparr>, blank)) = ''dark'' \<and>
   currentTheme (fst (snd (toggleTheme (snd (toggleTheme
     (\<lparr>themeToggle = False, currentTheme = ''dark''\<rparr>, blank)))))) = ''dark''"
  using toggleTheme_involution [of "(\<lparr>themeToggle = False, currentTheme = ''dark''\<rparr>, blank)"]
  by simp

text \<open>
  C4. \<open>applyTheme\<close> is idempotent on what it shows: a second \<open>applyTheme\<close> of the same
  theme leaves the \<open>data-theme\<close> marker and the content of the theme-colour meta tag as
  the first call set them, and each call appends exactly one \<open>themeChanged\<close> event, so
  that two calls append exactly two.
\<close>

theorem applyTheme_idempotent:
  "data_theme (snd (snd (applyTheme theme s))) = Some theme \<and>
   data_theme (snd (snd (applyTheme theme (snd (applyTheme theme s)))))
     = data_theme (snd (snd (applyTheme theme s))) \<and>
   meta_theme_color (snd (snd (applyTheme theme (snd (applyTheme theme s)))))
     = meta_theme_color (snd (snd (applyTheme theme s))) \<and>
   events (snd (snd (applyTheme theme s))) = events (snd s) @ [(''themeChanged'', theme)] \<and>
   events (snd (snd (applyTheme theme (snd (applyTheme theme s)))))
     = events (snd s) @ [(''themeChanged'', theme), (''themeChanged'', theme)]"
  by (cases s) (simp add: applyTheme_eq)

theorem applyTheme_idempotent_witness:
  "events (snd (snd (applyTheme ''dark'' (snd (applyTheme ''dark''
     (\<lparr>themeToggle = False, currentTheme = ''light''\<rparr>, blank))))))
     = [(''themeChanged'', ''dark''), (''themeChanged'', ''dark'')]"
  using applyTheme_idempotent [of "''dark''" "(\<lparr>themeToggle = False, currentTheme = ''light''\<rparr>, blank)"]
  by (simp add: blank_def)

text \<open>
  C5. The listener for changes of the system's colour scheme, once registered, applies
  the new system mode only when no theme is stored: with a stored theme (any non-empty
  string under the key \<open>theme\<close>) the event changes nothing at all, and with nothing
  stored (or storage unreadable) \<open>currentTheme\<close> becomes the mode the event reports.
\<close>

theorem system_change_only_without_stored:
  assumes "media_listener w"
  shows "(\<not> storage_denied w \<and> storage_items w ''theme'' = Some v \<and> v \<noteq> [] \<longrightarrow>
            dispatch (SystemThemeChange e_matches) (this, w) = (Inr (), (this, w))) \<and>
         (storage_denied w \<or> storage_items w ''theme'' = None \<longrightarrow>
            currentTheme (fst (snd (dispatch (SystemThemeChange e_matches) (this, w))))
              = (if e_matches then ''dark'' else ''light''))"
  using assms by (auto simp: on_system_theme_change_def getStoredTheme_eq applyTheme_eq)

theorem system_change_only_without_stored_witness:
  "media_listener (blank\<lparr>media_listener := True, storage_items := [''theme'' \<mapsto> ''dark'']\<rparr>) \<and>
   storage_items (blank\<lparr>media_listener := True, storage_items := [''theme'' \<mapsto> ''dark'']\<rparr>) ''theme''
     = Some ''dark'' \<and>
   currentTheme (fst (snd (dispatch (SystemThemeChange False)
     (\<lparr>themeToggle = False, currentTheme = ''dark''\<rparr>,
      blank\<lparr>media_listener := True, storage_items := [''theme'' \<mapsto> ''dark'']\<rparr>)))) = ''dark'' \<and>
   storage_items (blank\<lparr>media_listener := True\<rparr>) ''theme'' = None \<and>
   currentTheme (fst (snd (dispatch (SystemThemeChange False)
     (\<lparr>themeToggle = False, currentTheme = ''dark''\<rparr>, blank\<lparr>media_listener := True\<rparr>)))) = ''light''"
  using system_change_only_without_stored
          [of "blank\<lparr>media_listener := True, storage_items := [''theme'' \<mapsto> ''dark'']\<rparr>"
              "''dark''" False "\<lparr>themeToggle = False, currentTheme = ''dark''\<rparr>"]
        system_change_only_without_stored
          [of "blank\<lparr>media_listener := True\<rparr>"
              "''dark''" False "\<lparr>themeToggle = False, currentTheme = ''dark''\<rparr>"]
  by (simp add: blank_def)

text \<open>
  C7. \<open>getStoredTheme\<close> never throws: it always returns. When storage can be read it
  returns what is stored under \<open>theme\<close> (\<open>null\<close> if nothing is) and changes nothing; when
  the storage access throws, it returns \<open>null\<close> and logs one warning.
\<close>

theorem getStoredTheme_never_throws:
  "(\<exists>v w'. getStoredTheme w = (Inr v, w')) \<and>
   (\<not> storage_denied w \<longrightarrow> getStoredTheme w = (Inr (storage_items w ''theme''), w)) \<and>
   (storage_denied w \<longrightarrow>
      localStorage_getItem ''theme'' w = Inl SecurityError \<and>
      getStoredTheme w =
        (Inr None, w\<lparr>console := console w @ [(''localStorage not available:'', SecurityError)]\<rparr>))"
  by (simp add: getStoredTheme_eq localStorage_getItem_def)

theorem getStoredTheme_never_throws_witness:
  "storage_denied (blank\<lparr>storage_denied := True\<rparr>) \<and>
   localStorage_getItem ''theme'' (blank\<lparr>storage_denied := True\<rparr>) = Inl SecurityError \<and>
   fst (getStoredTheme (blank\<lparr>storage_denied := True\<rparr>)) = Inr None \<and>
   console (snd (getStoredTheme (blank\<lparr>storage_denied := True\<rparr>)))
     = [(''localStorage not available:'', SecurityError)] \<and>
   \<not> storage_denied (blank\<lparr>storage_items := [''theme'' \<mapsto> ''dark'']\<rparr>) \<and>
   getStoredTheme (blank\<lparr>storage_items := [''theme'' \<mapsto> ''dark'']\<rparr>)
     = (Inr (Some ''dark''), blank\<lparr>storage_items := [''theme'' \<mapsto> ''dark'']\<rparr>)"
  using getStoredTheme_never_throws [of "blank\<lparr>storage_denied := True\<rparr>"]
        getStoredTheme_never_throws [of "blank\<lparr>storage_items := [''theme'' \<mapsto> ''dark'']\<rparr>"]
  by (simp add: blank_def)

text \<open>
  C8. Toggling from \<open>light\<close>: whether or not storage works, \<open>toggleTheme\<close> returns,
  \<open>currentTheme\<close> is \<open>dark\<close>, and exactly one event has been dispatched, \<open>themeChanged\<close>
  with \<open>detail.theme = dark\<close>; when storage works, \<open>localStorage\<close> holds \<open>dark\<close> under
  \<open>theme\<close>. A click on the toggle control, once its listener is registered, is this call
  of \<open>toggleTheme\<close>.
\<close>

theorem toggle_from_light:
  assumes "currentTheme this = ''light''"
  shows "fst (toggleTheme (this, w)) = Inr () \<and>
         currentTheme (fst (snd (toggleTheme (this, w)))) = ''dark'' \<and>
         (storage_available w \<longrightarrow>
            storage_items (snd (snd (toggleTheme (this, w)))) ''theme'' = Some ''dark'') \<and>
         events (snd (snd (toggleTheme (this, w)))) = events w @ [(''themeChanged'', ''dark'')] \<and>
         (toggle_listeners w \<longrightarrow> dispatch Click (this, w) = toggleTheme (this, w))"
  using assms by (simp add: toggleTheme_eq applyTheme_eq)

theorem toggle_from_light_witness:
  "currentTheme \<lparr>themeToggle = True, currentTheme = ''light''\<rparr> = ''light'' \<and>
   storage_available (blank\<lparr>toggle_listeners := True\<rparr>) \<and>
   toggle_listeners (blank\<lparr>toggle_listeners := True\<rparr>) \<and>
   storage_items (snd (snd (dispatch Click
     (\<lparr>themeToggle = True, currentTheme = ''light''\<rparr>, blank\<lparr>toggle_listeners := True\<rparr>)))) ''theme''
     = Some ''dark'' \<and>
   events (snd (snd (dispatch Click
     (\<lparr>themeToggle = True, currentTheme = ''light''\<rparr>, blank\<lparr>toggle_listeners := True\<rparr>))))
     = [(''themeChanged'', ''dark'')] \<and>
   \<not> storage_available (blank\<lparr>storage_denied := True\<rparr>) \<and>
   fst (toggleTheme (\<lparr>themeToggle = True, currentTheme = ''light''\<rparr>, blank\<lparr>storage_denied := True\<rparr>))
     = Inr () \<and>
   currentTheme (fst (snd (toggleTheme
     (\<lparr>themeToggle = True, currentTheme = ''light''\<rparr>, blank\<lparr>storage_denied := True\<rparr>)))) = ''dark'' \<and>
   events (snd (snd (toggleTheme
     (\<lparr>themeToggle = True, currentTheme = ''light''\<rparr>, blank\<lparr>storage_denied := True\<rparr>))))
     = [(''themeChanged'', ''dark'')]"
  using toggle_from_light [of "\<lparr>themeToggle = True, currentTheme = ''light''\<rparr>"
                              "blank\<lparr>toggle_listeners := True\<rparr>"]
        toggle_from_light [of "\<lparr>themeToggle = True, currentTheme = ''light''\<rparr>"
                              "blank\<lparr>storage_denied := True\<rparr>"]
  by (simp add: blank_def storage_available_def)

text \<open>
  C10. \<open>setTheme\<close> does nothing for an argument that is neither the string \<open>dark\<close> nor
  the string \<open>light\<close>: it returns and the whole state (current mode, \<open>data-theme\<close>
  marker, theme colour, stored value, toggle label, dispatched events) is as before.
\<close>

theorem setTheme_rejects_unknown:
  assumes "theme \<noteq> JString ''dark''" and "theme \<noteq> JString ''light''"
  shows "setTheme theme s = (Inr (), s)"
  using assms by (cases theme) (simp_all add: setTheme_def)

theorem setTheme_rejects_unknown_witness:
  "JString ''blue'' \<noteq> JString ''dark'' \<and> JString ''blue'' \<noteq> JString ''light'' \<and>
   setTheme (JString ''blue'') (\<lparr>themeToggle = False, currentTheme = ''light''\<rparr>, blank)
     = (Inr (), (\<lparr>themeToggle = False, currentTheme = ''light''\<rparr>, blank))"
  using setTheme_rejects_unknown
          [of "JString ''blue''" "(\<lparr>themeToggle = False, currentTheme = ''light''\<rparr>, blank)"]
  by simp

section \<open>The theme colour\<close>

text \<open>
  For \<open>light\<close>, for \<open>dark\<close> and for every name that \<open>Object.prototype\<close> does not define,
  \<open>updateMetaThemeColor\<close> sets the colours the table gives, with light's colour as the
  fallback.
\<close>

lemma updateMetaThemeColor_table:
  "meta_theme_color (updateMetaThemeColor ''light'' w) = Some (JString ''#ffffff'') \<and>
   meta_theme_color (updateMetaThemeColor ''dark'' w) = Some (JString ''#0f172a'') \<and>
   (theme \<noteq> ''light'' \<and> theme \<noteq> ''dark'' \<and> theme \<notin> set Object_prototype_properties \<longrightarrow>
      meta_theme_color (updateMetaThemeColor theme w) = Some (JString ''#ffffff''))"
  by (simp add: updateMetaThemeColor_def get_property_def colors_def js_or_def)

text \<open>
  C6. The fallback of \<open>updateMetaThemeColor\<close> to light's colour misses the names that
  the \<open>colors\<close> literal inherits: for the theme \<open>toString\<close> the lookup \<open>colors[theme]\<close>
  is the inherited function, which is truthy, so the meta tag's content is assigned
  that function and not \<open>#ffffff\<close>. Startup reaches this call when \<open>localStorage\<close>
  holds \<open>toString\<close> under the key \<open>theme\<close>.
\<close>

theorem updateMetaThemeColor_inherited_property:
  "meta_theme_color (updateMetaThemeColor ''toString'' w) = Some (JObject ''toString'') \<and>
   meta_theme_color (updateMetaThemeColor ''toString'' w) \<noteq> Some (JString ''#ffffff'') \<and>
   meta_theme_color (snd (snd (constructor (blank\<lparr>storage_items := [''theme'' \<mapsto> ''toString'']\<rparr>))))
     = Some (JObject ''toString'')"
  by (simp add: updateMetaThemeColor_def get_property_def colors_def js_or_def
        Object_prototype_properties_def constructor_def getStoredTheme_eq init_eq
        applyTheme_eq blank_def)

section \<open>Persistence\<close>

text \<open>
  With working storage, a state in which \<open>localStorage\<close> holds the current theme, and
  that theme is not the empty string, stays so under every event.
\<close>

lemma dispatch_keeps_stored:
  assumes "storage_available (snd s)"
    and "storage_items (snd s) ''theme'' = Some (currentTheme (fst s))"
    and "currentTheme (fst s) \<noteq> []"
  shows "storage_available (snd (snd (dispatch e s))) \<and>
         storage_items (snd (snd (dispatch e s))) ''theme''
           = Some (currentTheme (fst (snd (dispatch e s)))) \<and>
         currentTheme (fst (snd (dispatch e s))) \<noteq> []"
proof (cases s)
  case (Pair this w)
  show ?thesis
  proof (cases e)
    case (Call_setTheme theme)
    with Pair assms show ?thesis
      by (cases theme) (auto simp: setTheme_def applyTheme_eq storage_available_def)
  qed (use Pair assms in \<open>auto simp: toggleTheme_eq applyTheme_eq storage_available_def
        on_keydown_def on_system_theme_change_def getStoredTheme_eq on_timeout_def\<close>)
qed

lemma run_keeps_stored:
  assumes "storage_available (snd s)"
    and "storage_items (snd s) ''theme'' = Some (currentTheme (fst s))"
    and "currentTheme (fst s) \<noteq> []"
  shows "storage_available (snd (run es s)) \<and>
         storage_items (snd (run es s)) ''theme'' = Some (currentTheme (fst (run es s))) \<and>
         currentTheme (fst (run es s)) \<noteq> []"
  using assms
proof (induction es arbitrary: s)
  case Nil
  then show ?case by simp
next
  case (Cons e es)
  from dispatch_keeps_stored [OF Cons.prems, of e] show ?case
    by (simp add: Cons.IH)
qed

lemma constructor_stores:
  assumes "storage_available w"
  shows "storage_available (snd (snd (constructor w))) \<and>
         storage_items (snd (snd (constructor w))) ''theme''
           = Some (currentTheme (fst (snd (constructor w)))) \<and>
         currentTheme (fst (snd (constructor w))) \<noteq> []"
  using assms
  by (auto simp: constructor_def getStoredTheme_eq init_eq applyTheme_eq getSystemTheme_def
        storage_available_def split: option.splits)

lemma guard_fails:
  assumes "storage_available w" and "storage_items w ''theme'' = Some t" and "t \<noteq> []"
  shows "on_system_theme_change e_matches (this, w) = (Inr (), (this, w))"
  using assms by (simp add: on_system_theme_change_def getStoredTheme_eq storage_available_def)

text \<open>
  C9. \<open>applyTheme\<close> always persists its argument. With working storage: after
  \<open>applyTheme(theme)\<close> the key \<open>theme\<close> holds \<open>theme\<close>; the constructor, started with
  nothing stored, stores the system theme it inferred; and after the constructor and
  any sequence of events the key \<open>theme\<close> holds the current theme, a non-empty string,
  so that the listener for system changes finds a stored theme and changes nothing.
\<close>

theorem applyTheme_always_persists:
  assumes "storage_available w"
  shows "storage_items (snd (snd (applyTheme theme (this, w)))) ''theme'' = Some theme \<and>
         (storage_items w ''theme'' = None \<longrightarrow>
            storage_items (snd (snd (constructor w))) ''theme'' = Some (getSystemTheme w)) \<and>
         storage_items (snd (run es (snd (constructor w)))) ''theme''
           = Some (currentTheme (fst (run es (snd (constructor w))))) \<and>
         currentTheme (fst (run es (snd (constructor w)))) \<noteq> [] \<and>
         on_system_theme_change e_matches (run es (snd (constructor w)))
           = (Inr (), run es (snd (constructor w)))"
proof -
  let ?s = "run es (snd (constructor w))"
  have a: "storage_items (snd (snd (applyTheme theme (this, w)))) ''theme'' = Some theme"
    using assms by (simp add: applyTheme_eq)
  have b: "storage_items w ''theme'' = None \<longrightarrow>
            storage_items (snd (snd (constructor w))) ''theme'' = Some (getSystemTheme w)"
    using assms
    by (auto simp: constructor_def getStoredTheme_eq init_eq applyTheme_eq storage_available_def)
  from constructor_stores [OF assms]
  have c: "storage_available (snd ?s) \<and>
           storage_items (snd ?s) ''theme'' = Some (currentTheme (fst ?s)) \<and>
           currentTheme (fst ?s) \<noteq> []"
    by (intro run_keeps_stored) simp_all
  then have d: "on_system_theme_change e_matches ?s = (Inr (), ?s)"
    using guard_fails [of "snd ?s" "currentTheme (fst ?s)" e_matches "fst ?s"] by simp
  from a b c d show ?thesis by blast
qed

theorem applyTheme_always_persists_witness:
  "storage_available (blank\<lparr>matchMedia := Some True\<rparr>) \<and>
   storage_items (blank\<lparr>matchMedia := Some True\<rparr>) ''theme'' = None \<and>
   storage_items (snd (snd (constructor (blank\<lparr>matchMedia := Some True\<rparr>)))) ''theme'' = Some ''dark'' \<and>
   on_system_theme_change False
       (run [Call_toggleTheme, SystemThemeChange True] (snd (constructor (blank\<lparr>matchMedia := Some True\<rparr>))))
     = (Inr (), run [Call_toggleTheme, SystemThemeChange True]
                  (snd (constructor (blank\<lparr>matchMedia := Some True\<rparr>))))"
proof -
  have h: "storage_available (blank\<lparr>matchMedia := Some True\<rparr>)"
    by (simp add: storage_available_def blank_def)
  have n: "storage_items (blank\<lparr>matchMedia := Some True\<rparr>) ''theme'' = None"
    by (simp add: blank_def)
  have g: "getSystemTheme (blank\<lparr>matchMedia := Some True\<rparr>) = ''dark''"
    by (simp add: getSystemTheme_def)
  from applyTheme_always_persists
         [OF h, of "''dark''" "\<lparr>themeToggle = False, currentTheme = ''light''\<rparr>"
            "[Call_toggleTheme, SystemThemeChange True]" False]
  show ?thesis using h n g by simp
qed

end
